theory Spec2Isabelle
  imports Complex_Main
begin

section \<open>Data model\<close>

text \<open>
  The program works on floating-point scalars (numpy and torch values). They are modelled
  as \<^typ>\<open>real\<close>: comparisons against thresholds, which is all the classifier and the
  aggregator do with them, are order-theoretic. Rounding, infinities and NaN are outside
  the model; a division whose divisor is zero (a degenerate box or image) is outside it too.

  A feature set is a Python dict from key to scalar, a keypoint frame a list of 2D points.
  Python names starting with an underscore lose it (\<open>_process_result\<close> is
  \<open>process_result\<close>).
\<close>

type_synonym point = "real \<times> real"
type_synonym keypoints = "point list"
type_synonym bbox = "real \<times> real \<times> real \<times> real"
type_synonym features = "string \<rightharpoonup> real"

datatype error = IndexError | KeyError | ValueError | TypeError

text \<open>\<open>features.get(k, d)\<close>\<close>

definition dict_get :: "features \<Rightarrow> string \<Rightarrow> real \<Rightarrow> real" where
  "dict_get features k d = (case features k of None \<Rightarrow> d | Some v \<Rightarrow> v)"

section \<open>Action classifier (action_classification.py)\<close>

definition VELOCITY_THRESHOLD_IDLE :: real where
  "VELOCITY_THRESHOLD_IDLE = 0.05"

definition VELOCITY_THRESHOLD_WALK :: real where
  "VELOCITY_THRESHOLD_WALK = 0.15"

definition JUMP_VELOCITY_THRESHOLD :: real where
  "JUMP_VELOCITY_THRESHOLD = - 0.015"

definition REAR_FRONT_VELOCITY_THRESHOLD :: real where
  "REAR_FRONT_VELOCITY_THRESHOLD = - 0.005"

definition TAIL_VARIANCE_THRESHOLD :: real where
  "TAIL_VARIANCE_THRESHOLD = 9.0"

definition TAIL_OSCILLATION_THRESHOLD :: real where
  "TAIL_OSCILLATION_THRESHOLD = 25"

definition LEG_STRIDE_THRESHOLD :: real where
  "LEG_STRIDE_THRESHOLD = 15.0"

text \<open>The keys read with \<open>features[k]\<close>: a missing one raises KeyError.\<close>

definition required_keys :: "string list" where
  "required_keys = [''front_left_leg_angle'', ''front_right_leg_angle'',
     ''rear_left_leg_angle'', ''rear_right_leg_angle'', ''bbox_height'', ''bbox_width'']"

definition has_keys :: "features \<Rightarrow> string list \<Rightarrow> bool" where
  "has_keys features ks = list_all (\<lambda>k. features k \<noteq> None) ks"

text \<open>Step 2 of \<open>recognize_action\<close>: the motion state.\<close>

definition motion_state :: "features \<Rightarrow> string" where
  "motion_state features =
     (let avg_vel = dict_get features ''avg_velocity'' 0;
          leg_stride_var = dict_get features ''leg_angle_variance'' 0
      in if avg_vel > VELOCITY_THRESHOLD_IDLE then
           (if avg_vel > VELOCITY_THRESHOLD_WALK \<and> leg_stride_var > LEG_STRIDE_THRESHOLD
            then ''running'' else ''walking'')
         else ''idle'')"

definition front_paws_y :: "keypoints \<Rightarrow> real" where
  "front_paws_y keypoints_norm = (snd (keypoints_norm ! 0) + snd (keypoints_norm ! 6)) / 2"

definition rear_paws_y :: "keypoints \<Rightarrow> real" where
  "rear_paws_y keypoints_norm = (snd (keypoints_norm ! 3) + snd (keypoints_norm ! 9)) / 2"

definition paw_height_diff :: "keypoints \<Rightarrow> real" where
  "paw_height_diff keypoints_norm = rear_paws_y keypoints_norm - front_paws_y keypoints_norm"

text \<open>Step 3: the primary pose, computed only when the motion state is idle.\<close>

definition primary_pose :: "features \<Rightarrow> keypoints \<Rightarrow> string" where
  "primary_pose features keypoints_norm =
     (let fl_angle = the (features ''front_left_leg_angle'');
          fr_angle = the (features ''front_right_leg_angle'');
          rl_angle = the (features ''rear_left_leg_angle'');
          rr_angle = the (features ''rear_right_leg_angle'');
          bbox_h = the (features ''bbox_height'');
          bbox_w = the (features ''bbox_width'');
          height_ratio = bbox_h / (bbox_w + 0.000001)
      in if motion_state features = ''idle'' then
           (if (rl_angle < 70 \<or> rr_angle < 70) \<and> fl_angle > 60 \<and> fr_angle > 60
              then ''sitting''
            else if rl_angle > 80 \<and> rr_angle > 80 \<and> fl_angle > 80 \<and> fr_angle > 80
              then ''standing''
            else if rl_angle > 80 \<and> rr_angle > 80
                    \<and> (rear_paws_y keypoints_norm + \<bar>front_paws_y keypoints_norm\<bar>) > 0.6
                    \<and> height_ratio > 1.5
              then ''standing_on_two_legs''
            else if rl_angle < 40 \<and> rr_angle < 40 \<and> fl_angle < 50 \<and> fr_angle < 50
              then ''lying''
            else ''unknown'')
         else ''unknown'')"

definition is_tail_wagging_label :: "features \<Rightarrow> bool" where
  "is_tail_wagging_label features =
     (let tail_variance = dict_get features ''tail_angle_variance'' 0;
          tail_oscillations = dict_get features ''tail_oscillation_count'' 0
      in tail_variance > TAIL_VARIANCE_THRESHOLD
         \<and> tail_oscillations > TAIL_OSCILLATION_THRESHOLD)"

text \<open>
  \<open>recognize_action\<close>. The subscripts \<open>features[k]\<close> come first (KeyError), then the
  keypoint reads at indices 0, 6, 3 and 9 (IndexError when the frame has fewer than 10
  points); only then the decision chain runs. \<open>primary_pose\<close> is reached only after both
  checks, so its \<open>the\<close> and \<open>!\<close> are in range.
\<close>

definition recognize_action :: "features option \<Rightarrow> keypoints option \<Rightarrow> error + string" where
  "recognize_action features keypoints_norm =
     (case (features, keypoints_norm) of
        (Some f, Some k) \<Rightarrow>
          (let centroid_vy = dict_get f ''centroid_vertical_velocity'' 0;
               front_vy = dict_get f ''front_paws_vertical_velocity'' 0
           in if \<not> has_keys f required_keys then Inl KeyError
              else if length k < 10 then Inl IndexError
              else if centroid_vy < JUMP_VELOCITY_THRESHOLD then Inr ''jumping''
              else if front_vy < REAR_FRONT_VELOCITY_THRESHOLD \<or> paw_height_diff k > 0.3
                then Inr ''rearing''
              else
                (let motion = motion_state f;
                     pose = primary_pose f k
                 in if motion \<noteq> ''idle'' then Inr motion
                    else if pose = ''unknown'' then Inr ''idle''
                    else if is_tail_wagging_label f then Inr (pose @ ''_wagging'')
                    else Inr pose))
      | _ \<Rightarrow> Inr ''unknown'')"

text \<open>A label carries the suffix when it ends with it.\<close>

definition ends_with :: "string \<Rightarrow> string \<Rightarrow> bool" where
  "ends_with s sfx = (length sfx \<le> length s \<and> drop (length s - length sfx) s = sfx)"

section \<open>Feature extractor (feature_extraction.py)\<close>

text \<open>
  A detector result: the image shape, the keypoints of every detection (\<open>keypoints.xy\<close>,
  of shape [n, K, 2]) and their boxes (\<open>boxes.xywh\<close>). No detection is \<open>n = 0\<close>.
\<close>

record detection =
  orig_shape :: "real \<times> real"
  keypoints_xy :: "keypoints list"
  boxes_xywh :: "bbox list"

definition process_result :: "detection \<Rightarrow> error + (keypoints option \<times> bbox option)" where
  "process_result result =
     (let (img_w, img_h) = orig_shape result
      in if length (keypoints_xy result) = 0 then Inr (None, None)
         else
           (case boxes_xywh result of
              [] \<Rightarrow> Inl IndexError
            | (cx, cy, w, h) # _ \<Rightarrow>
                (let keypoints_xy0 = hd (keypoints_xy result);
                     bbox_norm = (cx / img_w, cy / img_h, w / img_w, h / img_h);
                     keypoints_norm = map (\<lambda>(x, y). ((x - cx) / w, (y - cy) / h)) keypoints_xy0
                 in Inr (Some keypoints_norm, Some bbox_norm))))"

definition psub :: "point \<Rightarrow> point \<Rightarrow> point" where
  "psub a b = (fst a - fst b, snd a - snd b)"

definition dot :: "point \<Rightarrow> point \<Rightarrow> real" where
  "dot a b = fst a * fst b + snd a * snd b"

definition norm2 :: "point \<Rightarrow> real" where
  "norm2 a = sqrt ((fst a)\<^sup>2 + (snd a)\<^sup>2)"

definition clip :: "real \<Rightarrow> real \<Rightarrow> real \<Rightarrow> real" where
  "clip x lo hi = min (max x lo) hi"

definition degrees :: "real \<Rightarrow> real" where
  "degrees x = x * 180 / pi"

definition compute_angle :: "point \<Rightarrow> point \<Rightarrow> point \<Rightarrow> real" where
  "compute_angle a b c =
     (let ba = psub a b;
          bc = psub c b;
          cos_theta = dot ba bc / (norm2 ba * norm2 bc + 0.000001)
      in degrees (arccos (clip cos_theta (- 1) 1)))"

text \<open>
  \<open>_extract_semantic_features\<close> reads the keypoints at indices up to 22: a frame with
  fewer than 23 points raises IndexError at the first read beyond its end.
\<close>

definition extract_semantic_features ::
    "detection \<Rightarrow> error + (features option \<times> keypoints option)" where
  "extract_semantic_features result =
     (case process_result result of
        Inl e \<Rightarrow> Inl e
      | Inr (None, _) \<Rightarrow> Inr (None, None)
      | Inr (Some kpts_norm, None) \<Rightarrow> Inl TypeError
      | Inr (Some kpts_norm, Some (bx, by, bw, bh)) \<Rightarrow>
          if length kpts_norm < 23 then Inl IndexError
          else Inr (Some
            [''front_left_leg_angle'' \<mapsto>
               compute_angle (kpts_norm ! 0) (kpts_norm ! 1) (kpts_norm ! 2),
             ''front_right_leg_angle'' \<mapsto>
               compute_angle (kpts_norm ! 6) (kpts_norm ! 7) (kpts_norm ! 8),
             ''rear_left_leg_angle'' \<mapsto>
               compute_angle (kpts_norm ! 3) (kpts_norm ! 4) (kpts_norm ! 5),
             ''rear_right_leg_angle'' \<mapsto>
               compute_angle (kpts_norm ! 9) (kpts_norm ! 10) (kpts_norm ! 11),
             ''tail_angle'' \<mapsto>
               compute_angle (kpts_norm ! 13) (kpts_norm ! 12) (kpts_norm ! 22),
             ''paw_distance_front'' \<mapsto> norm2 (psub (kpts_norm ! 0) (kpts_norm ! 6)),
             ''paw_distance_rear'' \<mapsto> norm2 (psub (kpts_norm ! 3) (kpts_norm ! 9)),
             ''body_length'' \<mapsto> norm2 (psub (kpts_norm ! 22) (kpts_norm ! 13)),
             ''head_width'' \<mapsto> norm2 (psub (kpts_norm ! 20) (kpts_norm ! 21)),
             ''bbox_width'' \<mapsto> bw,
             ''bbox_height'' \<mapsto> bh],
            Some kpts_norm))"

record FeatureExtractor =
  window_size :: int
  history_buffer :: "(keypoints \<times> bbox) list"

definition FeatureExtractor_init :: "int \<Rightarrow> FeatureExtractor" where
  "FeatureExtractor_init ws = \<lparr>window_size = ws, history_buffer = []\<rparr>"

text \<open>numpy's mean, (population) variance and standard deviation of a flat array.\<close>

definition np_mean :: "real list \<Rightarrow> real" where
  "np_mean xs = sum_list xs / real (length xs)"

definition np_var :: "real list \<Rightarrow> real" where
  "np_var xs = np_mean (map (\<lambda>x. (x - np_mean xs)\<^sup>2) xs)"

definition np_std :: "real list \<Rightarrow> real" where
  "np_std xs = sqrt (np_var xs)"

text \<open>The pairs \<open>(xs[t+1], xs[t])\<close> behind every \<open>xs[1:] - xs[:-1]\<close>.\<close>

definition successive :: "'a list \<Rightarrow> ('a \<times> 'a) list" where
  "successive xs = zip (tl xs) (butlast xs)"

fun count_peaks_from :: "real list \<Rightarrow> nat" where
  "count_peaks_from (a # b # c # rest) =
     (if b > a \<and> b > c then 1 else if b < a \<and> b < c then 1 else 0)
       + count_peaks_from (b # c # rest)"
| "count_peaks_from _ = 0"

definition count_peaks :: "real list \<Rightarrow> nat" where
  "count_peaks vals = (if length vals < 3 then 0 else count_peaks_from vals)"

text \<open>
  \<open>_compute_motion_features\<close> writes nine keys into the feature set. \<open>np.array\<close> over
  buffered frames of different lengths does not give the [T, K, 2] array the code goes on
  to slice: that is the ValueError branch.
\<close>

definition compute_motion_features :: "FeatureExtractor \<Rightarrow> features \<Rightarrow> error + features" where
  "compute_motion_features self features =
     (let kpts_seq = map fst (history_buffer self);
          bbox_seq = map snd (history_buffer self)
      in if \<not> list_all (\<lambda>kp. length kp = length (hd kpts_seq)) kpts_seq then Inl ValueError
         else
           (let diffs = concat (map (\<lambda>(q, p). map (\<lambda>(b, a). norm2 (psub b a)) (zip q p))
                                    (successive kpts_seq));
                avg_velocity = np_mean diffs;
                tail_angles = map (\<lambda>kp. compute_angle (kp ! 13) (kp ! 12) (kp ! 22)) kpts_seq;
                centroid_y_seq = map (\<lambda>(cx, cy, w, h). cy) bbox_seq;
                vertical_diffs = map (\<lambda>(b, a). b - a) (successive centroid_y_seq);
                front_paws_y_seq = map (\<lambda>kp. (snd (kp ! 0) + snd (kp ! 6)) / 2) kpts_seq;
                rear_paws_y_seq = map (\<lambda>kp. (snd (kp ! 3) + snd (kp ! 9)) / 2) kpts_seq;
                leg_angles_seq = map (\<lambda>kp.
                    [compute_angle (kp ! 0) (kp ! 1) (kp ! 2),
                     compute_angle (kp ! 6) (kp ! 7) (kp ! 8),
                     compute_angle (kp ! 3) (kp ! 4) (kp ! 5),
                     compute_angle (kp ! 9) (kp ! 10) (kp ! 11)]) kpts_seq;
                leg_angle_diffs = concat (map (\<lambda>(q, p). map (\<lambda>(b, a). \<bar>b - a\<bar>) (zip q p))
                                              (successive leg_angles_seq))
            in Inr (features
                 (''avg_velocity'' \<mapsto> avg_velocity,
                  ''tail_angle_variance'' \<mapsto> np_std tail_angles,
                  ''tail_oscillation_count'' \<mapsto> real (count_peaks tail_angles),
                  ''centroid_vertical_velocity'' \<mapsto> np_mean vertical_diffs,
                  ''front_paws_vertical_velocity'' \<mapsto>
                     np_mean (map (\<lambda>(b, a). b - a) (successive front_paws_y_seq)),
                  ''rear_paws_vertical_velocity'' \<mapsto>
                     np_mean (map (\<lambda>(b, a). b - a) (successive rear_paws_y_seq)),
                  ''bbox_center_variance'' \<mapsto>
                     np_mean [np_var (map (\<lambda>(cx, cy, w, h). cx) bbox_seq),
                              np_var (map (\<lambda>(cx, cy, w, h). cy) bbox_seq)],
                  ''leg_angle_variance'' \<mapsto> np_mean (map np_var (transpose leg_angles_seq)),
                  ''leg_angle_change_rate'' \<mapsto> np_mean leg_angle_diffs))))"

text \<open>
  \<open>FeatureExtractor.update\<close>: the returned pair and the extractor after the call. An
  empty detection returns before the buffer is touched.
\<close>

definition update ::
    "FeatureExtractor \<Rightarrow> detection
       \<Rightarrow> error + ((features option \<times> keypoints option) \<times> FeatureExtractor)" where
  "update self result =
     (case extract_semantic_features result of
        Inl e \<Rightarrow> Inl e
      | Inr (features, None) \<Rightarrow> Inr ((features, None), self)
      | Inr (None, Some kpts_norm) \<Rightarrow> Inl TypeError
      | Inr (Some f, Some kpts_norm) \<Rightarrow>
          (case process_result result of
             Inl e \<Rightarrow> Inl e
           | Inr (_, None) \<Rightarrow> Inl TypeError
           | Inr (_, Some bbox_norm) \<Rightarrow>
               (let buf = history_buffer self @ [(kpts_norm, bbox_norm)];
                    buf = (if int (length buf) > window_size self then tl buf else buf);
                    self = self\<lparr>history_buffer := buf\<rparr>
                in if length (history_buffer self) \<ge> 2 then
                     (case compute_motion_features self f of
                        Inl e \<Rightarrow> Inl e
                      | Inr f \<Rightarrow> Inr ((Some f, Some kpts_norm), self))
                   else
                     Inr ((Some (f(''avg_velocity'' \<mapsto> 0.0,
                                   ''tail_angle_variance'' \<mapsto> 0.0,
                                   ''centroid_vertical_velocity'' \<mapsto> 0.0,
                                   ''front_paws_vertical_velocity'' \<mapsto> 0.0)),
                           Some kpts_norm), self))))"

section \<open>Behavior aggregator (analyze_behavior.py)\<close>

record frame_data =
  frame :: int
  action :: string
  velocity :: real
  tail_variance :: real
  is_tail_wagging :: bool
  centroid_vertical_velocity :: real
  leg_angle_variance :: real

record segment =
  action :: string
  start_frame :: int
  end_frame :: int
  duration_frames :: int
  duration_seconds :: real

text \<open>
  The statistics of one action. The source renders the percentages, the mean and the range
  as text (\<open>:.1f\<close>, \<open>:.4f\<close>); the model keeps the numbers that are rendered.
\<close>

record action_stat =
  total_frames :: nat
  percentage :: real
  avg_velocity :: real
  velocity_range :: "real \<times> real"
  tail_wagging_frames :: nat
  tail_wagging_percentage :: real

record video_info =
  total_frames :: nat
  duration_seconds :: real
  estimated_fps :: nat

record behavior_summary =
  video_info :: video_info
  action_statistics :: "string \<rightharpoonup> action_stat"
  action_timeline :: "segment list"
  frame_by_frame_data :: "frame_data list"

definition MOTION_BUFFER_SIZE :: nat where
  "MOTION_BUFFER_SIZE = 5"

text \<open>
  The temporal filtering of one classified frame: the label that is stored and the
  \<open>motion_history\<close> after it.
\<close>

definition temporal_filter :: "string \<Rightarrow> string list \<Rightarrow> string \<times> string list" where
  "temporal_filter act motion_history =
     (if act = ''running'' then
        (let mh = motion_history @ [''running''];
             mh = (if length mh > MOTION_BUFFER_SIZE then tl mh else mh)
         in (if length mh < MOTION_BUFFER_SIZE then ''walking'' else act, mh))
      else (act, []))"

text \<open>The per-frame record appended to \<open>frame_actions\<close>.\<close>

definition frame_record :: "int \<Rightarrow> string \<Rightarrow> features \<Rightarrow> frame_data" where
  "frame_record idx act features =
     \<lparr>frame = idx,
      action = act,
      velocity = dict_get features ''avg_velocity'' 0,
      tail_variance = dict_get features ''tail_angle_variance'' 0,
      is_tail_wagging = (dict_get features ''tail_angle_variance'' 0 > 9.0
                         \<and> dict_get features ''tail_oscillation_count'' 0 > 10),
      centroid_vertical_velocity = dict_get features ''centroid_vertical_velocity'' 0,
      leg_angle_variance = dict_get features ''leg_angle_variance'' 0\<rparr>"

record loop_state =
  extractor :: FeatureExtractor
  motion_history :: "string list"
  frame_actions :: "frame_data list"

text \<open>
  The body of the first loop of \<open>analyze_behavior\<close> at frame index \<open>idx\<close>: a frame
  without features is skipped, leaving \<open>motion_history\<close> and \<open>frame_actions\<close> as they are.
\<close>

definition loop_body :: "int \<Rightarrow> detection \<Rightarrow> loop_state \<Rightarrow> error + loop_state" where
  "loop_body idx result s =
     (case update (extractor s) result of
        Inl e \<Rightarrow> Inl e
      | Inr ((features, kpts_norm), ext) \<Rightarrow>
          (case features of
             None \<Rightarrow> Inr (s\<lparr>extractor := ext\<rparr>)
           | Some f \<Rightarrow>
               (case recognize_action (Some f) kpts_norm of
                  Inl e \<Rightarrow> Inl e
                | Inr act \<Rightarrow>
                    (let (act, mh) = temporal_filter act (motion_history s)
                     in Inr \<lparr>extractor = ext, motion_history = mh,
                             frame_actions = frame_actions s @ [frame_record idx act f]\<rparr>))))"

text \<open>The loop over \<open>enumerate(results)\<close>, from index \<open>idx\<close>; an exception ends it.\<close>

fun analyze_loop :: "int \<Rightarrow> detection list \<Rightarrow> loop_state \<Rightarrow> error + loop_state" where
  "analyze_loop idx [] s = Inr s"
| "analyze_loop idx (result # results) s =
     (case loop_body idx result s of
        Inl e \<Rightarrow> Inl e
      | Inr s' \<Rightarrow> analyze_loop (idx + 1) results s')"

definition make_segment :: "string \<Rightarrow> int \<Rightarrow> int \<Rightarrow> segment" where
  "make_segment current_action segment_start i =
     \<lparr>action = current_action,
      start_frame = segment_start,
      end_frame = i - 1,
      duration_frames = i - segment_start,
      duration_seconds = real_of_int (i - segment_start) / 30\<rparr>"

text \<open>
  The segmentation loop over \<open>enumerate(frame_actions)\<close>; its state is
  \<open>(action_segments, current_action, segment_start)\<close>.
\<close>

fun segment_loop ::
    "int \<Rightarrow> frame_data list \<Rightarrow> segment list \<times> string option \<times> int
       \<Rightarrow> segment list \<times> string option \<times> int" where
  "segment_loop i [] st = st"
| "segment_loop i (fd # rest) (action_segments, current_action, segment_start) =
     (if Some (frame_data.action fd) \<noteq> current_action then
        segment_loop (i + 1) rest
          ((case current_action of
              None \<Rightarrow> action_segments
            | Some c \<Rightarrow> action_segments @ [make_segment c segment_start i]),
           Some (frame_data.action fd), i)
      else segment_loop (i + 1) rest (action_segments, current_action, segment_start))"

text \<open>After the loop ("Don't forget the last segment"), with \<open>n = len(frame_actions)\<close>.\<close>

definition close_segments ::
    "segment list \<times> string option \<times> int \<Rightarrow> int \<Rightarrow> segment list" where
  "close_segments st n =
     (case st of
        (action_segments, current_action, segment_start) \<Rightarrow>
          (case current_action of
             None \<Rightarrow> action_segments
           | Some c \<Rightarrow> action_segments @ [make_segment c segment_start n]))"

definition action_segments_of :: "frame_data list \<Rightarrow> segment list" where
  "action_segments_of fa = close_segments (segment_loop 0 fa ([], None, 0)) (int (length fa))"

text \<open>The statistics dict: one entry per action among the stored labels.\<close>

definition action_stats_of :: "frame_data list \<Rightarrow> (string \<rightharpoonup> action_stat)" where
  "action_stats_of fa = (\<lambda>action_type.
     if action_type \<in> set (map frame_data.action fa) then
       (let action_frames = filter (\<lambda>f. frame_data.action f = action_type) fa;
            velocities = map velocity action_frames;
            tail_wags = filter is_tail_wagging action_frames
        in Some \<lparr>action_stat.total_frames = length action_frames,
                 percentage = real (length action_frames) / real (length fa) * 100,
                 avg_velocity = np_mean velocities,
                 velocity_range = (Min (set velocities), Max (set velocities)),
                 tail_wagging_frames = length tail_wags,
                 tail_wagging_percentage =
                   real (length tail_wags) / real (length action_frames) * 100\<rparr>)
     else None)"

definition summary_of :: "frame_data list \<Rightarrow> behavior_summary" where
  "summary_of fa =
     \<lparr>video_info = \<lparr>video_info.total_frames = length fa,
                    duration_seconds = real (length fa) / 30,
                    estimated_fps = 30\<rparr>,
      action_statistics = action_stats_of fa,
      action_timeline = action_segments_of fa,
      frame_by_frame_data = fa\<rparr>"

definition analyze_behavior :: "detection list \<Rightarrow> error + behavior_summary" where
  "analyze_behavior results =
     (case analyze_loop 0 results
             \<lparr>extractor = FeatureExtractor_init 60, motion_history = [], frame_actions = []\<rparr> of
        Inl e \<Rightarrow> Inl e
      | Inr s \<Rightarrow> Inr (summary_of (frame_actions s)))"

text \<open>
  The smoothed label stream: \<open>temporal_filter\<close> run over the raw labels of the processed
  frames, in order, from a given \<open>motion_history\<close>.
\<close>

fun smooth_from :: "string list \<Rightarrow> string list \<Rightarrow> string list" where
  "smooth_from mh [] = []"
| "smooth_from mh (act # acts) =
     (let (act', mh') = temporal_filter act mh in act' # smooth_from mh' acts)"

text \<open>
  The raw classification of the stream: what \<open>update\<close> and \<open>recognize_action\<close> give for
  each frame of \<open>enumerate(results)\<close> that has features, with its frame index.
\<close>

fun classify_frames ::
    "int \<Rightarrow> detection list \<Rightarrow> FeatureExtractor \<Rightarrow> error + (int \<times> string) list" where
  "classify_frames idx [] ext = Inr []"
| "classify_frames idx (result # results) ext =
     (case update ext result of
        Inl e \<Rightarrow> Inl e
      | Inr ((features, kpts_norm), ext') \<Rightarrow>
          (case features of
             None \<Rightarrow> classify_frames (idx + 1) results ext'
           | Some f \<Rightarrow>
               (case recognize_action (Some f) kpts_norm of
                  Inl e \<Rightarrow> Inl e
                | Inr act \<Rightarrow>
                    (case classify_frames (idx + 1) results ext' of
                       Inl e \<Rightarrow> Inl e
                     | Inr rest \<Rightarrow> Inr ((idx, act) # rest)))))"

text \<open>
  The segments still to come when the loop stands at index \<open>i\<close> with a run of label \<open>c\<close>
  open since \<open>start\<close>: the rest of the loop from an empty list, then the closing step.
\<close>

definition open_run :: "string \<Rightarrow> int \<Rightarrow> int \<Rightarrow> frame_data list \<Rightarrow> segment list" where
  "open_run c start i rest =
     close_segments (segment_loop i rest ([], Some c, start)) (i + int (length rest))"

text \<open>A segment's own fields agree: a positive frame count, its span, its duration at 30 fps.\<close>

definition seg_ok :: "segment \<Rightarrow> bool" where
  "seg_ok seg \<longleftrightarrow> 1 \<le> duration_frames seg
     \<and> duration_frames seg = end_frame seg - start_frame seg + 1
     \<and> segment.duration_seconds seg = real_of_int (duration_frames seg) / 30"

text \<open>Two loop states that differ at most in the frame indices stored in their records.\<close>

definition same_labels :: "loop_state \<Rightarrow> loop_state \<Rightarrow> bool" where
  "same_labels s s' \<longleftrightarrow> extractor s = extractor s' \<and> motion_history s = motion_history s'
      \<and> map frame_data.action (frame_actions s) = map frame_data.action (frame_actions s')"

section \<open>Concrete inputs\<close>

text \<open>The nine keys that \<open>_compute_motion_features\<close> writes.\<close>

definition motion_keys :: "string list" where
  "motion_keys = [''avg_velocity'', ''tail_angle_variance'', ''tail_oscillation_count'',
     ''centroid_vertical_velocity'', ''front_paws_vertical_velocity'',
     ''rear_paws_vertical_velocity'', ''leg_angle_variance'', ''leg_angle_change_rate'',
     ''bbox_center_variance'']"

definition no_detection :: detection where
  "no_detection = \<lparr>orig_shape = (640, 480), keypoints_xy = [], boxes_xywh = []\<rparr>"

definition origin_keypoints :: keypoints where
  "origin_keypoints = replicate 24 (0, 0)"

text \<open>A detection whose 24 keypoints all sit at the centre of its box.\<close>

definition still_detection :: detection where
  "still_detection =
     \<lparr>orig_shape = (1, 1), keypoints_xy = [origin_keypoints], boxes_xywh = [(0, 0, 1, 1)]\<rparr>"

definition still_features :: features where
  "still_features =
     [''front_left_leg_angle'' \<mapsto> 90, ''front_right_leg_angle'' \<mapsto> 90,
      ''rear_left_leg_angle'' \<mapsto> 90, ''rear_right_leg_angle'' \<mapsto> 90,
      ''tail_angle'' \<mapsto> 90, ''paw_distance_front'' \<mapsto> 0, ''paw_distance_rear'' \<mapsto> 0,
      ''body_length'' \<mapsto> 0, ''head_width'' \<mapsto> 0,
      ''bbox_width'' \<mapsto> 1, ''bbox_height'' \<mapsto> 1]"

text \<open>A sitting dog at rest, with a given tail-angle deviation and oscillation count.\<close>

definition sitting_features :: "real \<Rightarrow> real \<Rightarrow> features" where
  "sitting_features tv osc =
     [''front_left_leg_angle'' \<mapsto> 90, ''front_right_leg_angle'' \<mapsto> 90,
      ''rear_left_leg_angle'' \<mapsto> 65, ''rear_right_leg_angle'' \<mapsto> 65,
      ''bbox_height'' \<mapsto> 1, ''bbox_width'' \<mapsto> 1,
      ''tail_angle_variance'' \<mapsto> tv, ''tail_oscillation_count'' \<mapsto> osc]"

text \<open>Five raw running frames, one walking frame, five running frames.\<close>

definition scenario_labels :: "string list" where
  "scenario_labels = [''running'', ''running'', ''running'', ''running'', ''running'',
     ''walking'', ''running'', ''running'', ''running'', ''running'', ''running'']"

text \<open>Four stored records, of frames 0, 1, 3 and 4 (frame 2 had no detection).\<close>

definition example_records :: "frame_data list" where
  "example_records =
     [frame_record 0 ''walking'' Map.empty, frame_record 1 ''walking'' Map.empty,
      frame_record 3 ''sitting'' Map.empty, frame_record 4 ''walking'' Map.empty]"

text \<open>A loop state in the middle of a run: three running labels buffered.\<close>

definition mid_run_state :: loop_state where
  "mid_run_state =
     \<lparr>extractor = \<lparr>window_size = 60, history_buffer = [(origin_keypoints, (0, 0, 1, 1))]\<rparr>,
      motion_history = [''running'', ''running'', ''running''],
      frame_actions = [frame_record 0 ''walking'' Map.empty]\<rparr>"

text \<open>
  A detection in mid-stride: in each leg the paw and the upper joint sit one box width to
  the right of the middle joint, every other keypoint at the box centre.
\<close>

definition stride_keypoints :: keypoints where
  "stride_keypoints =
     [(1, 0), (0, 0), (1, 0), (1, 0), (0, 0), (1, 0), (1, 0), (0, 0), (1, 0), (1, 0), (0, 0), (1, 0),
      (0, 0), (0, 0), (0, 0), (0, 0), (0, 0), (0, 0), (0, 0), (0, 0), (0, 0), (0, 0), (0, 0), (0, 0)]"

definition stride_detection :: detection where
  "stride_detection =
     \<lparr>orig_shape = (1, 1), keypoints_xy = [stride_keypoints], boxes_xywh = [(0, 0, 1, 1)]\<rparr>"

text \<open>The leg angle of the stride pose.\<close>

definition stride_angle :: real where
  "stride_angle = compute_angle (1, 0) (0, 0) (1, 0)"

text \<open>The window entries of the two poses, and a stream that alternates between them.\<close>

definition still_frame :: "keypoints \<times> bbox" where
  "still_frame = (origin_keypoints, (0, 0, 1, 1))"

definition stride_frame :: "keypoints \<times> bbox" where
  "stride_frame = (stride_keypoints, (0, 0, 1, 1))"

definition run_stream :: "detection list" where
  "run_stream = [still_detection, stride_detection, still_detection, stride_detection,
     still_detection, stride_detection]"

section \<open>The classifier's decision chain\<close>

lemmas thresholds = VELOCITY_THRESHOLD_IDLE_def VELOCITY_THRESHOLD_WALK_def
  JUMP_VELOCITY_THRESHOLD_def REAR_FRONT_VELOCITY_THRESHOLD_def TAIL_VARIANCE_THRESHOLD_def
  TAIL_OSCILLATION_THRESHOLD_def LEG_STRIDE_THRESHOLD_def

lemmas classifier_eval = has_keys_def required_keys_def dict_get_def thresholds
  paw_height_diff_def rear_paws_y_def front_paws_y_def motion_state_def primary_pose_def
  sitting_features_def origin_keypoints_def

lemma motion_state_cases:
  "motion_state f = ''idle'' \<or> motion_state f = ''walking'' \<or> motion_state f = ''running''"
  by (simp add: motion_state_def Let_def)

lemma primary_pose_cases:
  "primary_pose f k \<in> {''sitting'', ''standing'', ''standing_on_two_legs'', ''lying'', ''unknown''}"
  by (simp add: primary_pose_def Let_def)

lemma pose_no_suffix: "\<not> ends_with (primary_pose f k) ''_wagging''"
  using primary_pose_cases [of f k] by (auto simp: ends_with_def)

lemma ends_with_append: "ends_with (p @ sfx) sfx"
  by (simp add: ends_with_def)

lemma recognize_action_idle_pose:
  assumes "has_keys f required_keys" and "10 \<le> length k"
    and "\<not> dict_get f ''centroid_vertical_velocity'' 0 < JUMP_VELOCITY_THRESHOLD"
    and "\<not> (dict_get f ''front_paws_vertical_velocity'' 0 < REAR_FRONT_VELOCITY_THRESHOLD
            \<or> paw_height_diff k > 0.3)"
    and "motion_state f = ''idle''" and "primary_pose f k \<noteq> ''unknown''"
  shows "recognize_action (Some f) (Some k) =
           Inr (if is_tail_wagging_label f then primary_pose f k @ ''_wagging''
                else primary_pose f k)"
  using assms by (simp add: recognize_action_def)

text \<open>
  C6. For a feature set with its static keys and a keypoint frame, the label is "jumping"
  exactly when the centroid vertical velocity is strictly below the jump threshold: at the
  threshold it is not "jumping", below it the label is "jumping" whatever the other
  features are.
\<close>

theorem jump_threshold_strict:
  assumes "has_keys f required_keys" and "10 \<le> length k"
  shows "recognize_action (Some f) (Some k) = Inr ''jumping''
           \<longleftrightarrow> dict_get f ''centroid_vertical_velocity'' 0 < JUMP_VELOCITY_THRESHOLD"
proof
  assume "recognize_action (Some f) (Some k) = Inr ''jumping''"
  then show "dict_get f ''centroid_vertical_velocity'' 0 < JUMP_VELOCITY_THRESHOLD"
    using motion_state_cases [of f] primary_pose_cases [of f k]
    by (auto simp: recognize_action_def Let_def split: if_splits)
next
  assume "dict_get f ''centroid_vertical_velocity'' 0 < JUMP_VELOCITY_THRESHOLD"
  with assms show "recognize_action (Some f) (Some k) = Inr ''jumping''"
    by (simp add: recognize_action_def)
qed

theorem jump_threshold_strict_witness:
  "recognize_action
      (Some ((sitting_features 0 0)(''centroid_vertical_velocity'' \<mapsto> - 0.016)))
      (Some origin_keypoints) = Inr ''jumping''
   \<and> recognize_action
      (Some ((sitting_features 0 0)(''centroid_vertical_velocity'' \<mapsto> JUMP_VELOCITY_THRESHOLD)))
      (Some origin_keypoints) \<noteq> Inr ''jumping''"
proof -
  have k: "10 \<le> length origin_keypoints"
    by (simp add: origin_keypoints_def)
  have below: "has_keys ((sitting_features 0 0)(''centroid_vertical_velocity'' \<mapsto> - 0.016))
                 required_keys"
    by (simp add: has_keys_def required_keys_def sitting_features_def)
  have at: "has_keys ((sitting_features 0 0)
                 (''centroid_vertical_velocity'' \<mapsto> JUMP_VELOCITY_THRESHOLD)) required_keys"
    by (simp add: has_keys_def required_keys_def sitting_features_def)
  show ?thesis
    using jump_threshold_strict [OF below k] jump_threshold_strict [OF at k]
    by (simp add: dict_get_def JUMP_VELOCITY_THRESHOLD_def)
qed

text \<open>
  C7. A feature set classified with motion idle and a known pose gets a label that ends
  with "_wagging" exactly when the tail-angle deviation exceeds its threshold and the
  oscillation count exceeds its minimum.
\<close>

theorem wagging_suffix_iff:
  assumes "has_keys f required_keys" and "10 \<le> length k"
    and "\<not> dict_get f ''centroid_vertical_velocity'' 0 < JUMP_VELOCITY_THRESHOLD"
    and "\<not> (dict_get f ''front_paws_vertical_velocity'' 0 < REAR_FRONT_VELOCITY_THRESHOLD
            \<or> paw_height_diff k > 0.3)"
    and "motion_state f = ''idle''" and "primary_pose f k \<noteq> ''unknown''"
  shows "\<exists>label. recognize_action (Some f) (Some k) = Inr label
           \<and> (ends_with label ''_wagging''
                \<longleftrightarrow> dict_get f ''tail_angle_variance'' 0 > TAIL_VARIANCE_THRESHOLD
                     \<and> dict_get f ''tail_oscillation_count'' 0 > TAIL_OSCILLATION_THRESHOLD)"
proof (cases "is_tail_wagging_label f")
  case True
  with recognize_action_idle_pose [OF assms]
  show ?thesis by (auto simp: ends_with_append is_tail_wagging_label_def)
next
  case False
  with recognize_action_idle_pose [OF assms] pose_no_suffix [of f k]
  show ?thesis by (auto simp: is_tail_wagging_label_def)
qed

lemma sitting_features_reach_pose:
  "has_keys (sitting_features tv osc) required_keys"
  "10 \<le> length origin_keypoints"
  "\<not> dict_get (sitting_features tv osc) ''centroid_vertical_velocity'' 0 < JUMP_VELOCITY_THRESHOLD"
  "\<not> (dict_get (sitting_features tv osc) ''front_paws_vertical_velocity'' 0
         < REAR_FRONT_VELOCITY_THRESHOLD \<or> paw_height_diff origin_keypoints > 0.3)"
  "motion_state (sitting_features tv osc) = ''idle''"
  "primary_pose (sitting_features tv osc) origin_keypoints = ''sitting''"
  by (simp_all add: classifier_eval)

theorem wagging_suffix_iff_witness:
  "(\<exists>label. recognize_action (Some (sitting_features 12 0)) (Some origin_keypoints) = Inr label
       \<and> \<not> ends_with label ''_wagging'')
   \<and> (\<exists>label. recognize_action (Some (sitting_features 2 40)) (Some origin_keypoints) = Inr label
       \<and> \<not> ends_with label ''_wagging'')
   \<and> (\<exists>label. recognize_action (Some (sitting_features 12 40)) (Some origin_keypoints) = Inr label
       \<and> ends_with label ''_wagging'')"
proof -
  have known: "primary_pose (sitting_features tv osc) origin_keypoints \<noteq> ''unknown''"
    for tv osc by (simp add: sitting_features_reach_pose(6))
  have tv: "dict_get (sitting_features tv osc) ''tail_angle_variance'' 0 = tv"
    and osc: "dict_get (sitting_features tv osc) ''tail_oscillation_count'' 0 = osc"
    for tv osc by (simp_all add: dict_get_def sitting_features_def)
  note w = wagging_suffix_iff [OF sitting_features_reach_pose(1-5) known, unfolded tv osc]
  show ?thesis
    using w [of 12 0] w [of 2 40] w [of 12 40]
    by (simp add: TAIL_VARIANCE_THRESHOLD_def TAIL_OSCILLATION_THRESHOLD_def)
qed

section \<open>The feature extractor's update\<close>

lemma process_result_empty:
  "keypoints_xy result = [] \<Longrightarrow> process_result result = Inr (None, None)"
  by (simp add: process_result_def split: prod.splits)

lemma extract_empty:
  "keypoints_xy result = [] \<Longrightarrow> extract_semantic_features result = Inr (None, None)"
  by (simp add: extract_semantic_features_def process_result_empty)

lemma update_empty:
  "keypoints_xy result = [] \<Longrightarrow> update self result = Inr ((None, None), self)"
  by (simp add: update_def extract_empty)

lemma compute_angle_origin: "compute_angle (0, 0) (0, 0) (0, 0) = 90"
  by (simp add: compute_angle_def psub_def dot_def norm2_def clip_def degrees_def)

lemma process_still:
  "process_result still_detection = Inr (Some origin_keypoints, Some (0, 0, 1, 1))"
  by (simp add: process_result_def still_detection_def origin_keypoints_def)

lemma extract_still:
  "extract_semantic_features still_detection = Inr (Some still_features, Some origin_keypoints)"
  by (simp add: extract_semantic_features_def process_still still_features_def)
     (simp add: origin_keypoints_def compute_angle_origin norm2_def psub_def)

lemma update_still_first:
  "update (FeatureExtractor_init 60) still_detection =
     Inr ((Some (still_features(''avg_velocity'' \<mapsto> 0, ''tail_angle_variance'' \<mapsto> 0,
                  ''centroid_vertical_velocity'' \<mapsto> 0,
                  ''front_paws_vertical_velocity'' \<mapsto> 0)),
           Some origin_keypoints),
          \<lparr>window_size = 60, history_buffer = [(origin_keypoints, (0, 0, 1, 1))]\<rparr>)"
  by (simp add: update_def extract_still process_still FeatureExtractor_init_def)

text \<open>
  C8. On a frame without detection, \<open>update\<close> returns the pair (None, None) and the
  extractor it was called on, buffer included; so an update that returns a different
  buffer was given a detection.
\<close>

theorem update_empty_detection:
  "(keypoints_xy result = [] \<longrightarrow> update self result = Inr ((None, None), self))
   \<and> (update self result = Inr (out, self') \<and> history_buffer self' \<noteq> history_buffer self
        \<longrightarrow> keypoints_xy result \<noteq> [])"
  using update_empty [of result self] by auto

theorem update_empty_detection_witness:
  "update \<lparr>window_size = 60, history_buffer = [(origin_keypoints, (0, 0, 1, 1))]\<rparr> no_detection
     = Inr ((None, None), \<lparr>window_size = 60, history_buffer = [(origin_keypoints, (0, 0, 1, 1))]\<rparr>)
   \<and> keypoints_xy still_detection \<noteq> []"
proof -
  have empty: "keypoints_xy no_detection = []"
    by (simp add: no_detection_def)
  have changed:
    "update (FeatureExtractor_init 60) still_detection =
       Inr ((Some (still_features(''avg_velocity'' \<mapsto> 0, ''tail_angle_variance'' \<mapsto> 0,
                    ''centroid_vertical_velocity'' \<mapsto> 0,
                    ''front_paws_vertical_velocity'' \<mapsto> 0)),
             Some origin_keypoints),
            \<lparr>window_size = 60, history_buffer = [(origin_keypoints, (0, 0, 1, 1))]\<rparr>)
     \<and> history_buffer \<lparr>window_size = 60, history_buffer = [(origin_keypoints, (0, 0, 1, 1))]\<rparr>
         \<noteq> history_buffer (FeatureExtractor_init 60)"
    by (simp add: update_still_first) (simp add: FeatureExtractor_init_def)
  show ?thesis
    using update_empty_detection
            [of no_detection "\<lparr>window_size = 60,
                               history_buffer = [(origin_keypoints, (0, 0, 1, 1))]\<rparr>"]
          update_empty_detection [of still_detection "FeatureExtractor_init 60", THEN conjunct2]
          empty changed
    by blast
qed

text \<open>
  C2. The first detection given to a fresh extractor leaves one frame in the window. The
  feature set returned for it holds four of the nine motion keys, each with value 0:
  \<open>tail_oscillation_count\<close>, \<open>rear_paws_vertical_velocity\<close>, \<open>leg_angle_variance\<close>,
  \<open>leg_angle_change_rate\<close> and \<open>bbox_center_variance\<close> are absent.
\<close>

theorem first_frame_motion_keys:
  "(case update (FeatureExtractor_init 60) still_detection of
      Inr ((Some f, _), ext) \<Rightarrow>
        length (history_buffer ext) = 1 \<and>
        map f motion_keys = [Some 0, Some 0, None, Some 0, Some 0, None, None, None, None]
    | _ \<Rightarrow> False)"
  by (simp add: update_still_first) (simp add: motion_keys_def still_features_def)

section \<open>Temporal smoothing\<close>

lemma temporal_filter_running:
  assumes "m \<le> 5"
  shows "temporal_filter ''running'' (replicate m ''running'') =
     (if 4 \<le> m then ''running'' else ''walking'', replicate (min 5 (Suc m)) ''running'')"
proof -
  have app: "replicate m ''running'' @ [''running''] = replicate (Suc m) ''running''"
    by (simp add: replicate_append_same)
  show ?thesis
  proof (cases "m = 5")
    case True
    then show ?thesis
      unfolding temporal_filter_def MOTION_BUFFER_SIZE_def app Let_def by simp
  next
    case False
    show ?thesis
    proof (cases "m = 4")
      case True
      then show ?thesis
        by (simp add: temporal_filter_def MOTION_BUFFER_SIZE_def eval_nat_numeral)
    next
      case m4: False
      with False assms have "m < 4" by simp
      then show ?thesis
        unfolding temporal_filter_def MOTION_BUFFER_SIZE_def app Let_def by (auto simp: min_def)
    qed
  qed
qed

lemma temporal_filter_other:
  "act \<noteq> ''running'' \<Longrightarrow> temporal_filter act mh = (act, replicate 0 ''running'')"
  by (simp add: temporal_filter_def)

lemma length_smooth_from: "length (smooth_from mh acts) = length acts"
  by (induction acts arbitrary: mh) (auto split: prod.splits)

text \<open>
  With \<open>m\<close> running labels already in the buffer, frame \<open>i\<close> surfaces as running when it
  and the frames before it, back to the fifth, are raw running, the \<open>m\<close> buffered ones
  counting for the frames before the start.
\<close>

lemma smooth_from_nth:
  assumes "m \<le> 5" and "i < length raw"
  shows "smooth_from (replicate m ''running'') raw ! i =
           (if raw ! i = ''running''
            then (if (\<forall>j\<le>i. i < j + 5 \<longrightarrow> raw ! j = ''running'') \<and> 4 \<le> i + m
                  then ''running'' else ''walking'')
            else raw ! i)"
  using assms
proof (induction raw arbitrary: m i)
  case Nil
  then show ?case by simp
next
  case (Cons a raw)
  show ?case
  proof (cases i)
    case 0
    then show ?thesis using Cons.prems
      by (cases "a = ''running''") (simp_all add: temporal_filter_running temporal_filter_other)
  next
    case (Suc i')
    with Cons.prems have i': "i' < length raw" by simp
    show ?thesis
    proof (cases "a = ''running''")
      case True
      have m': "min 5 (Suc m) \<le> 5" by simp
      have eq: "((\<forall>j\<le>i'. i' < j + 5 \<longrightarrow> raw ! j = ''running'') \<and> 4 \<le> i' + min 5 (Suc m))
            \<longleftrightarrow> ((\<forall>j\<le>Suc i'. Suc i' < j + 5 \<longrightarrow> (a # raw) ! j = ''running'')
                  \<and> 4 \<le> Suc i' + m)"
        using True by (auto simp: nth_Cons split: nat.splits)
      show ?thesis
        using Cons.IH [OF m' i'] True Suc Cons.prems(1) eq
        by (simp add: temporal_filter_running)
    next
      case False
      have eq: "((\<forall>j\<le>i'. i' < j + 5 \<longrightarrow> raw ! j = ''running'') \<and> 4 \<le> i' + 0)
            \<longleftrightarrow> ((\<forall>j\<le>Suc i'. Suc i' < j + 5 \<longrightarrow> (a # raw) ! j = ''running'')
                  \<and> 4 \<le> Suc i' + m)"
        using False by (auto simp: nth_Cons split: nat.splits)
      show ?thesis
        using Cons.IH [of 0 i', OF _ i'] False Suc eq
        by (simp add: temporal_filter_other)
    qed
  qed
qed

text \<open>
  From an empty buffer, frame \<open>i\<close> of the smoothed labels is "running" when raw frames
  \<open>i - 4\<close> to \<open>i\<close> all are; a raw "running" short of that is "walking"; any other label is
  kept.
\<close>

lemma smooth_from_debounce:
  assumes "i < length raw"
  shows "smooth_from [] raw ! i =
           (if raw ! i = ''running''
            then (if 4 \<le> i \<and> (\<forall>j. i - 4 \<le> j \<and> j \<le> i \<longrightarrow> raw ! j = ''running'')
                  then ''running'' else ''walking'')
            else raw ! i)"
proof -
  have "(\<forall>j\<le>i. i < j + 5 \<longrightarrow> raw ! j = ''running'') \<and> 4 \<le> i + 0
          \<longleftrightarrow> 4 \<le> i \<and> (\<forall>j. i - 4 \<le> j \<and> j \<le> i \<longrightarrow> raw ! j = ''running'')"
    by (auto simp: less_diff_conv2)
  with smooth_from_nth [of 0 i raw] assms show ?thesis by simp
qed

lemma smooth_scenario:
  "smooth_from [] scenario_labels = [''walking'', ''walking'', ''walking'', ''walking'', ''running'',
     ''walking'', ''walking'', ''walking'', ''walking'', ''walking'', ''running'']"
  by (simp add: scenario_labels_def temporal_filter_def MOTION_BUFFER_SIZE_def)

text \<open>
  The labels stored by the loop are the smoothed raw labels of the frames that were
  classified, and the stored frame numbers are their indices in \<open>results\<close>.
\<close>

lemma analyze_loop_labels:
  "analyze_loop idx results s = Inr s' \<Longrightarrow>
     \<exists>cf. classify_frames idx results (extractor s) = Inr cf
        \<and> map frame_data.action (frame_actions s')
            = map frame_data.action (frame_actions s) @ smooth_from (motion_history s) (map snd cf)
        \<and> map frame (frame_actions s') = map frame (frame_actions s) @ map fst cf"
proof (induction results arbitrary: idx s)
  case Nil
  then show ?case by simp
next
  case (Cons r rs)
  from Cons.prems obtain s1 where body: "loop_body idx r s = Inr s1"
    and rest: "analyze_loop (idx + 1) rs s1 = Inr s'"
    by (auto split: sum.splits)
  from Cons.IH [OF rest] obtain cf where
    cf: "classify_frames (idx + 1) rs (extractor s1) = Inr cf"
    and acts: "map frame_data.action (frame_actions s')
            = map frame_data.action (frame_actions s1) @ smooth_from (motion_history s1) (map snd cf)"
    and frames: "map frame (frame_actions s') = map frame (frame_actions s1) @ map fst cf"
    by blast
  from body obtain features kpts ext where upd: "update (extractor s) r = Inr ((features, kpts), ext)"
    by (auto simp: loop_body_def split: sum.splits)
  show ?case
  proof (cases features)
    case None
    with body upd have "s1 = s\<lparr>extractor := ext\<rparr>" by (simp add: loop_body_def)
    with cf acts frames upd None show ?thesis by simp
  next
    case (Some f)
    with body upd obtain act where rec: "recognize_action (Some f) kpts = Inr act"
      by (auto simp: loop_body_def split: sum.splits)
    obtain act' mh' where tf: "temporal_filter act (motion_history s) = (act', mh')"
      by (cases "temporal_filter act (motion_history s)")
    with body upd Some rec have s1: "s1 = \<lparr>extractor = ext, motion_history = mh',
        frame_actions = frame_actions s @ [frame_record idx act' f]\<rparr>"
      by (simp add: loop_body_def)
    with cf acts frames upd Some rec tf show ?thesis
      by (simp add: frame_record_def)
  qed
qed

lemma recognize_still:
  "recognize_action
     (Some (still_features(''avg_velocity'' \<mapsto> 0, ''tail_angle_variance'' \<mapsto> 0,
              ''centroid_vertical_velocity'' \<mapsto> 0, ''front_paws_vertical_velocity'' \<mapsto> 0)))
     (Some origin_keypoints) = Inr ''standing''"
  by (simp add: recognize_action_def has_keys_def required_keys_def dict_get_def thresholds
        paw_height_diff_def rear_paws_y_def front_paws_y_def motion_state_def primary_pose_def
        is_tail_wagging_label_def still_features_def origin_keypoints_def)

lemma loop_body_still_first:
  "loop_body idx still_detection
      \<lparr>extractor = FeatureExtractor_init 60, motion_history = [], frame_actions = []\<rparr>
   = Inr \<lparr>extractor = \<lparr>window_size = 60, history_buffer = [(origin_keypoints, (0, 0, 1, 1))]\<rparr>,
          motion_history = [],
          frame_actions = [\<lparr>frame = idx, action = ''standing'', velocity = 0, tail_variance = 0,
             is_tail_wagging = False, centroid_vertical_velocity = 0, leg_angle_variance = 0\<rparr>]\<rparr>"
  by (simp add: loop_body_def update_still_first recognize_still temporal_filter_def)
     (simp add: frame_record_def dict_get_def still_features_def)

text \<open>
  The alternating stream: every frame after the first moves a third of the keypoints by
  one box width and swings each leg angle between 90 degrees and at most 60, so each is
  raw "running".
\<close>

lemma stride_angle_bounds: "0 \<le> stride_angle \<and> stride_angle \<le> 60"
proof -
  have eq: "stride_angle = arccos (1000000 / 1000001) * 180 / pi"
    by (simp add: stride_angle_def compute_angle_def psub_def dot_def norm2_def clip_def degrees_def)
  have lo: "0 \<le> arccos (1000000 / 1000001 :: real)"
    by (rule arccos_lbound) simp_all
  have "arccos (1000000 / 1000001 :: real) \<le> arccos (1 / 2)"
    by (rule arccos_le_arccos) simp_all
  then have hi: "arccos (1000000 / 1000001 :: real) \<le> pi / 3"
    by (simp add: arccos_one_half)
  from lo hi show ?thesis
    unfolding eq by (simp add: field_simps)
qed

lemma process_stride:
  "process_result stride_detection = Inr (Some stride_keypoints, Some (0, 0, 1, 1))"
  by (simp add: process_result_def stride_detection_def stride_keypoints_def)

lemma origin_list: "origin_keypoints =
     [(0, 0), (0, 0), (0, 0), (0, 0), (0, 0), (0, 0), (0, 0), (0, 0), (0, 0), (0, 0), (0, 0), (0, 0),
      (0, 0), (0, 0), (0, 0), (0, 0), (0, 0), (0, 0), (0, 0), (0, 0), (0, 0), (0, 0), (0, 0), (0, 0)]"
  by (simp add: origin_keypoints_def eval_nat_numeral)

lemma running_features:
  assumes "has_keys f required_keys" and "10 \<le> length k" and "paw_height_diff k = 0"
    and "dict_get f ''centroid_vertical_velocity'' 0 = 0"
    and "dict_get f ''front_paws_vertical_velocity'' 0 = 0"
    and "dict_get f ''avg_velocity'' 0 = 1 / 3"
    and "dict_get f ''leg_angle_variance'' 0 = c * (90 - stride_angle)\<^sup>2" and "1 / 5 \<le> c"
  shows "recognize_action (Some f) (Some k) = Inr ''running''"
proof -
  have "30 \<le> 90 - stride_angle" using stride_angle_bounds by simp
  then have "30\<^sup>2 \<le> (90 - stride_angle)\<^sup>2" by (rule power_mono) simp
  then have sq: "900 \<le> (90 - stride_angle)\<^sup>2" by simp
  have "1 / 5 * 900 \<le> c * (90 - stride_angle)\<^sup>2"
    using assms(8) sq by (intro mult_mono) simp_all
  then have "15 < dict_get f ''leg_angle_variance'' 0" using assms(7) by simp
  then have "motion_state f = ''running''"
    using assms(6) by (simp add: motion_state_def thresholds)
  with assms(1-5) show ?thesis
    by (simp add: recognize_action_def thresholds)
qed

lemma paw_height_diff_frames:
  "paw_height_diff origin_keypoints = 0" "paw_height_diff stride_keypoints = 0"
  "10 \<le> length origin_keypoints" "10 \<le> length stride_keypoints"
  by (simp_all add: paw_height_diff_def rear_paws_y_def front_paws_y_def origin_list
        stride_keypoints_def)

lemma update_run_2:
  "\<exists>f. update \<lparr>window_size = 60, history_buffer = [still_frame]\<rparr> stride_detection
      = Inr ((Some f, Some stride_keypoints), \<lparr>window_size = 60, history_buffer = [still_frame, stride_frame]\<rparr>)
     \<and> recognize_action (Some f) (Some stride_keypoints) = Inr ''running''"
proof -
  have "\<exists>f. update \<lparr>window_size = 60, history_buffer = [still_frame]\<rparr> stride_detection
      = Inr ((Some f, Some stride_keypoints), \<lparr>window_size = 60, history_buffer = [still_frame, stride_frame]\<rparr>)
     \<and> has_keys f required_keys
     \<and> dict_get f ''centroid_vertical_velocity'' 0 = 0
     \<and> dict_get f ''front_paws_vertical_velocity'' 0 = 0
     \<and> dict_get f ''avg_velocity'' 0 = 1 / 3
     \<and> dict_get f ''leg_angle_variance'' 0 = 1 / 4 * (90 - stride_angle)\<^sup>2"
    apply (simp add: update_def extract_semantic_features_def process_stride compute_motion_features_def
        Let_def has_keys_def required_keys_def dict_get_def successive_def still_frame_def
        stride_frame_def)
    apply (simp add: origin_list stride_keypoints_def compute_angle_origin psub_def norm2_def
        np_mean_def np_var_def flip: stride_angle_def)
    apply (simp add: power2_eq_square field_simps)
    done
  then show ?thesis
    using running_features [where k = stride_keypoints and c = "1 / 4"] paw_height_diff_frames
    by auto
qed

lemma update_run_3:
  "\<exists>f. update \<lparr>window_size = 60, history_buffer = [still_frame, stride_frame]\<rparr> still_detection
      = Inr ((Some f, Some origin_keypoints), \<lparr>window_size = 60, history_buffer = [still_frame, stride_frame, still_frame]\<rparr>)
     \<and> recognize_action (Some f) (Some origin_keypoints) = Inr ''running''"
proof -
  have "\<exists>f. update \<lparr>window_size = 60, history_buffer = [still_frame, stride_frame]\<rparr> still_detection
      = Inr ((Some f, Some origin_keypoints), \<lparr>window_size = 60, history_buffer = [still_frame, stride_frame, still_frame]\<rparr>)
     \<and> has_keys f required_keys
     \<and> dict_get f ''centroid_vertical_velocity'' 0 = 0
     \<and> dict_get f ''front_paws_vertical_velocity'' 0 = 0
     \<and> dict_get f ''avg_velocity'' 0 = 1 / 3
     \<and> dict_get f ''leg_angle_variance'' 0 = 2 / 9 * (90 - stride_angle)\<^sup>2"
    apply (simp add: update_def extract_semantic_features_def process_still compute_motion_features_def
        Let_def has_keys_def required_keys_def dict_get_def successive_def still_frame_def
        stride_frame_def)
    apply (simp add: origin_list stride_keypoints_def compute_angle_origin psub_def norm2_def
        np_mean_def np_var_def flip: stride_angle_def)
    apply (simp add: power2_eq_square field_simps)
    done
  then show ?thesis
    using running_features [where k = origin_keypoints and c = "2 / 9"] paw_height_diff_frames
    by auto
qed

lemma update_run_4:
  "\<exists>f. update \<lparr>window_size = 60, history_buffer = [still_frame, stride_frame, still_frame]\<rparr> stride_detection
      = Inr ((Some f, Some stride_keypoints), \<lparr>window_size = 60, history_buffer = [still_frame, stride_frame, still_frame, stride_frame]\<rparr>)
     \<and> recognize_action (Some f) (Some stride_keypoints) = Inr ''running''"
proof -
  have "\<exists>f. update \<lparr>window_size = 60, history_buffer = [still_frame, stride_frame, still_frame]\<rparr> stride_detection
      = Inr ((Some f, Some stride_keypoints), \<lparr>window_size = 60, history_buffer = [still_frame, stride_frame, still_frame, stride_frame]\<rparr>)
     \<and> has_keys f required_keys
     \<and> dict_get f ''centroid_vertical_velocity'' 0 = 0
     \<and> dict_get f ''front_paws_vertical_velocity'' 0 = 0
     \<and> dict_get f ''avg_velocity'' 0 = 1 / 3
     \<and> dict_get f ''leg_angle_variance'' 0 = 1 / 4 * (90 - stride_angle)\<^sup>2"
    apply (simp add: update_def extract_semantic_features_def process_stride compute_motion_features_def
        Let_def has_keys_def required_keys_def dict_get_def successive_def still_frame_def
        stride_frame_def)
    apply (simp add: origin_list stride_keypoints_def compute_angle_origin psub_def norm2_def
        np_mean_def np_var_def flip: stride_angle_def)
    apply (simp add: power2_eq_square field_simps)
    done
  then show ?thesis
    using running_features [where k = stride_keypoints and c = "1 / 4"] paw_height_diff_frames
    by auto
qed

lemma update_run_5:
  "\<exists>f. update \<lparr>window_size = 60, history_buffer = [still_frame, stride_frame, still_frame, stride_frame]\<rparr> still_detection
      = Inr ((Some f, Some origin_keypoints), \<lparr>window_size = 60, history_buffer = [still_frame, stride_frame, still_frame, stride_frame, still_frame]\<rparr>)
     \<and> recognize_action (Some f) (Some origin_keypoints) = Inr ''running''"
proof -
  have "\<exists>f. update \<lparr>window_size = 60, history_buffer = [still_frame, stride_frame, still_frame, stride_frame]\<rparr> still_detection
      = Inr ((Some f, Some origin_keypoints), \<lparr>window_size = 60, history_buffer = [still_frame, stride_frame, still_frame, stride_frame, still_frame]\<rparr>)
     \<and> has_keys f required_keys
     \<and> dict_get f ''centroid_vertical_velocity'' 0 = 0
     \<and> dict_get f ''front_paws_vertical_velocity'' 0 = 0
     \<and> dict_get f ''avg_velocity'' 0 = 1 / 3
     \<and> dict_get f ''leg_angle_variance'' 0 = 6 / 25 * (90 - stride_angle)\<^sup>2"
    apply (simp add: update_def extract_semantic_features_def process_still compute_motion_features_def
        Let_def has_keys_def required_keys_def dict_get_def successive_def still_frame_def
        stride_frame_def)
    apply (simp add: origin_list stride_keypoints_def compute_angle_origin psub_def norm2_def
        np_mean_def np_var_def flip: stride_angle_def)
    apply (simp add: power2_eq_square field_simps)
    done
  then show ?thesis
    using running_features [where k = origin_keypoints and c = "6 / 25"] paw_height_diff_frames
    by auto
qed

lemma update_run_6:
  "\<exists>f. update \<lparr>window_size = 60, history_buffer = [still_frame, stride_frame, still_frame, stride_frame, still_frame]\<rparr> stride_detection
      = Inr ((Some f, Some stride_keypoints), \<lparr>window_size = 60, history_buffer = [still_frame, stride_frame, still_frame, stride_frame, still_frame, stride_frame]\<rparr>)
     \<and> recognize_action (Some f) (Some stride_keypoints) = Inr ''running''"
proof -
  have "\<exists>f. update \<lparr>window_size = 60, history_buffer = [still_frame, stride_frame, still_frame, stride_frame, still_frame]\<rparr> stride_detection
      = Inr ((Some f, Some stride_keypoints), \<lparr>window_size = 60, history_buffer = [still_frame, stride_frame, still_frame, stride_frame, still_frame, stride_frame]\<rparr>)
     \<and> has_keys f required_keys
     \<and> dict_get f ''centroid_vertical_velocity'' 0 = 0
     \<and> dict_get f ''front_paws_vertical_velocity'' 0 = 0
     \<and> dict_get f ''avg_velocity'' 0 = 1 / 3
     \<and> dict_get f ''leg_angle_variance'' 0 = 1 / 4 * (90 - stride_angle)\<^sup>2"
    apply (simp add: update_def extract_semantic_features_def process_stride compute_motion_features_def
        Let_def has_keys_def required_keys_def dict_get_def successive_def still_frame_def
        stride_frame_def)
    apply (simp add: origin_list stride_keypoints_def compute_angle_origin psub_def norm2_def
        np_mean_def np_var_def flip: stride_angle_def)
    apply (simp add: power2_eq_square field_simps)
    done
  then show ?thesis
    using running_features [where k = stride_keypoints and c = "1 / 4"] paw_height_diff_frames
    by auto
qed

lemma update_run_1:
  "update (FeatureExtractor_init 60) still_detection =
     Inr ((Some (still_features(''avg_velocity'' \<mapsto> 0, ''tail_angle_variance'' \<mapsto> 0,
                  ''centroid_vertical_velocity'' \<mapsto> 0,
                  ''front_paws_vertical_velocity'' \<mapsto> 0)),
           Some origin_keypoints),
          \<lparr>window_size = 60, history_buffer = [still_frame]\<rparr>)"
  by (simp add: update_still_first still_frame_def)

lemma frame_by_frame_data_summary_of: "frame_by_frame_data (summary_of fa) = fa"
  by (simp add: summary_of_def)

lemma run_stream_raw:
  "classify_frames 0 run_stream (FeatureExtractor_init 60)
       = Inr [(0, ''standing''), (1, ''running''), (2, ''running''), (3, ''running''),
              (4, ''running''), (5, ''running'')]"
proof -
  from update_run_2 obtain f2 where
    u2: "update \<lparr>window_size = 60, history_buffer = [still_frame]\<rparr> stride_detection
      = Inr ((Some f2, Some stride_keypoints),
             \<lparr>window_size = 60, history_buffer = [still_frame, stride_frame]\<rparr>)"
    and r2: "recognize_action (Some f2) (Some stride_keypoints) = Inr ''running''" by blast
  from update_run_3 obtain f3 where
    u3: "update \<lparr>window_size = 60, history_buffer = [still_frame, stride_frame]\<rparr> still_detection
      = Inr ((Some f3, Some origin_keypoints),
             \<lparr>window_size = 60, history_buffer = [still_frame, stride_frame, still_frame]\<rparr>)"
    and r3: "recognize_action (Some f3) (Some origin_keypoints) = Inr ''running''" by blast
  from update_run_4 obtain f4 where
    u4: "update \<lparr>window_size = 60, history_buffer = [still_frame, stride_frame, still_frame]\<rparr>
           stride_detection
      = Inr ((Some f4, Some stride_keypoints),
             \<lparr>window_size = 60,
              history_buffer = [still_frame, stride_frame, still_frame, stride_frame]\<rparr>)"
    and r4: "recognize_action (Some f4) (Some stride_keypoints) = Inr ''running''" by blast
  from update_run_5 obtain f5 where
    u5: "update \<lparr>window_size = 60,
                 history_buffer = [still_frame, stride_frame, still_frame, stride_frame]\<rparr>
           still_detection
      = Inr ((Some f5, Some origin_keypoints),
             \<lparr>window_size = 60,
              history_buffer = [still_frame, stride_frame, still_frame, stride_frame,
                                still_frame]\<rparr>)"
    and r5: "recognize_action (Some f5) (Some origin_keypoints) = Inr ''running''" by blast
  from update_run_6 obtain f6 where
    u6: "update \<lparr>window_size = 60,
                 history_buffer = [still_frame, stride_frame, still_frame, stride_frame,
                                   still_frame]\<rparr>
           stride_detection
      = Inr ((Some f6, Some stride_keypoints),
             \<lparr>window_size = 60,
              history_buffer = [still_frame, stride_frame, still_frame, stride_frame,
                                still_frame, stride_frame]\<rparr>)"
    and r6: "recognize_action (Some f6) (Some stride_keypoints) = Inr ''running''" by blast
  note steps = update_run_1 recognize_still u2 r2 u3 r3 u4 r4 u5 r5 u6 r6
  show ?thesis by (simp add: run_stream_def steps)
qed

lemma run_stream_smoothed:
  "\<exists>summary. analyze_behavior run_stream = Inr summary
      \<and> map frame_data.action (frame_by_frame_data summary)
          = [''standing'', ''walking'', ''walking'', ''walking'', ''walking'', ''running'']"
proof -
  from update_run_2 obtain f2 where
    u2: "update \<lparr>window_size = 60, history_buffer = [still_frame]\<rparr> stride_detection
      = Inr ((Some f2, Some stride_keypoints),
             \<lparr>window_size = 60, history_buffer = [still_frame, stride_frame]\<rparr>)"
    and r2: "recognize_action (Some f2) (Some stride_keypoints) = Inr ''running''" by blast
  from update_run_3 obtain f3 where
    u3: "update \<lparr>window_size = 60, history_buffer = [still_frame, stride_frame]\<rparr> still_detection
      = Inr ((Some f3, Some origin_keypoints),
             \<lparr>window_size = 60, history_buffer = [still_frame, stride_frame, still_frame]\<rparr>)"
    and r3: "recognize_action (Some f3) (Some origin_keypoints) = Inr ''running''" by blast
  from update_run_4 obtain f4 where
    u4: "update \<lparr>window_size = 60, history_buffer = [still_frame, stride_frame, still_frame]\<rparr>
           stride_detection
      = Inr ((Some f4, Some stride_keypoints),
             \<lparr>window_size = 60,
              history_buffer = [still_frame, stride_frame, still_frame, stride_frame]\<rparr>)"
    and r4: "recognize_action (Some f4) (Some stride_keypoints) = Inr ''running''" by blast
  from update_run_5 obtain f5 where
    u5: "update \<lparr>window_size = 60,
                 history_buffer = [still_frame, stride_frame, still_frame, stride_frame]\<rparr>
           still_detection
      = Inr ((Some f5, Some origin_keypoints),
             \<lparr>window_size = 60,
              history_buffer = [still_frame, stride_frame, still_frame, stride_frame,
                                still_frame]\<rparr>)"
    and r5: "recognize_action (Some f5) (Some origin_keypoints) = Inr ''running''" by blast
  from update_run_6 obtain f6 where
    u6: "update \<lparr>window_size = 60,
                 history_buffer = [still_frame, stride_frame, still_frame, stride_frame,
                                   still_frame]\<rparr>
           stride_detection
      = Inr ((Some f6, Some stride_keypoints),
             \<lparr>window_size = 60,
              history_buffer = [still_frame, stride_frame, still_frame, stride_frame,
                                still_frame, stride_frame]\<rparr>)"
    and r6: "recognize_action (Some f6) (Some stride_keypoints) = Inr ''running''" by blast
  note steps = update_run_1 recognize_still u2 r2 u3 r3 u4 r4 u5 r5 u6 r6
  have "\<exists>s'. analyze_loop 0 run_stream
            \<lparr>extractor = FeatureExtractor_init 60, motion_history = [], frame_actions = []\<rparr> = Inr s'
          \<and> map frame_data.action (frame_actions s')
              = [''standing'', ''walking'', ''walking'', ''walking'', ''walking'', ''running'']"
    by (simp add: run_stream_def loop_body_def steps temporal_filter_def MOTION_BUFFER_SIZE_def
          frame_record_def)
  then obtain s' where "analyze_loop 0 run_stream
            \<lparr>extractor = FeatureExtractor_init 60, motion_history = [], frame_actions = []\<rparr> = Inr s'"
    and "map frame_data.action (frame_actions s')
              = [''standing'', ''walking'', ''walking'', ''walking'', ''walking'', ''running'']"
    by (elim exE conjE)
  then show ?thesis
    by (simp add: analyze_behavior_def frame_by_frame_data_summary_of)
qed

text \<open>
  C4. Whenever \<open>analyze_behavior\<close> returns, the stored label of the \<open>i\<close>-th processed
  frame is "running" only when that frame and the four processed frames before it were
  all raw "running"; a raw "running" frame short of that is stored as "walking"; every
  other raw label is stored as it is. In the loop body, a frame whose raw label is not
  "running" leaves the buffer empty.
\<close>

theorem running_debounce:
  "(analyze_behavior results = Inr summary \<longrightarrow>
      (\<exists>cf. classify_frames 0 results (FeatureExtractor_init 60) = Inr cf
         \<and> map frame (frame_by_frame_data summary) = map fst cf
         \<and> (\<forall>i<length cf.
               frame_data.action (frame_by_frame_data summary ! i) =
                 (if snd (cf ! i) = ''running''
                  then (if 4 \<le> i
                           \<and> (\<forall>j. i - 4 \<le> j \<and> j \<le> i \<longrightarrow> snd (cf ! j) = ''running'')
                        then ''running'' else ''walking'')
                  else snd (cf ! i)))))
   \<and> (update (extractor s) result = Inr ((Some f, k), ext)
        \<and> recognize_action (Some f) k = Inr act \<and> act \<noteq> ''running'' \<longrightarrow>
      loop_body idx result s =
        Inr \<lparr>extractor = ext, motion_history = [],
             frame_actions = frame_actions s @ [frame_record idx act f]\<rparr>)"
proof (intro conjI impI)
  assume ret: "analyze_behavior results = Inr summary"
  let ?s0 = "\<lparr>extractor = FeatureExtractor_init 60, motion_history = [], frame_actions = []\<rparr>"
  from ret obtain s' where loop: "analyze_loop 0 results ?s0 = Inr s'"
    and summary: "summary = summary_of (frame_actions s')"
    by (auto simp: analyze_behavior_def split: sum.splits)
  have fbf: "frame_by_frame_data summary = frame_actions s'"
    by (simp add: summary summary_of_def)
  from analyze_loop_labels [OF loop] obtain cf where
    cf: "classify_frames 0 results (FeatureExtractor_init 60) = Inr cf"
    and acts: "map frame_data.action (frame_actions s') = smooth_from [] (map snd cf)"
    and frames: "map frame (frame_actions s') = map fst cf"
    by auto
  from frames have len: "length (frame_actions s') = length cf"
    by (metis length_map)
  have "frame_data.action (frame_actions s' ! i) =
          (if snd (cf ! i) = ''running''
           then (if 4 \<le> i \<and> (\<forall>j. i - 4 \<le> j \<and> j \<le> i \<longrightarrow> snd (cf ! j) = ''running'')
                 then ''running'' else ''walking'')
           else snd (cf ! i))" if i: "i < length cf" for i
  proof -
    have "frame_data.action (frame_actions s' ! i) = smooth_from [] (map snd cf) ! i"
      using i len acts by (metis nth_map)
    moreover have "(\<forall>j. i - 4 \<le> j \<and> j \<le> i \<longrightarrow> map snd cf ! j = ''running'')
        \<longleftrightarrow> (\<forall>j. i - 4 \<le> j \<and> j \<le> i \<longrightarrow> snd (cf ! j) = ''running'')"
      using i by auto
    ultimately show ?thesis
      using smooth_from_debounce [of i "map snd cf"] i by simp
  qed
  with cf frames fbf
  show "\<exists>cf. classify_frames 0 results (FeatureExtractor_init 60) = Inr cf
         \<and> map frame (frame_by_frame_data summary) = map fst cf
         \<and> (\<forall>i<length cf.
               frame_data.action (frame_by_frame_data summary ! i) =
                 (if snd (cf ! i) = ''running''
                  then (if 4 \<le> i
                           \<and> (\<forall>j. i - 4 \<le> j \<and> j \<le> i \<longrightarrow> snd (cf ! j) = ''running'')
                        then ''running'' else ''walking'')
                  else snd (cf ! i)))"
    by auto
next
  assume "update (extractor s) result = Inr ((Some f, k), ext)
        \<and> recognize_action (Some f) k = Inr act \<and> act \<noteq> ''running''"
  then show "loop_body idx result s =
        Inr \<lparr>extractor = ext, motion_history = [],
             frame_actions = frame_actions s @ [frame_record idx act f]\<rparr>"
    by (simp add: loop_body_def temporal_filter_def)
qed

theorem running_debounce_witness:
  "(\<exists>summary cf. analyze_behavior run_stream = Inr summary
      \<and> classify_frames 0 run_stream (FeatureExtractor_init 60) = Inr cf
      \<and> map snd cf = [''standing'', ''running'', ''running'', ''running'', ''running'', ''running'']
      \<and> map frame_data.action (frame_by_frame_data summary)
          = [''standing'', ''walking'', ''walking'', ''walking'', ''walking'', ''running'']
      \<and> map frame (frame_by_frame_data summary) = map fst cf)
   \<and> loop_body 6 still_detection
        \<lparr>extractor = FeatureExtractor_init 60, motion_history = [''running'', ''running''],
         frame_actions = []\<rparr>
      = Inr \<lparr>extractor = \<lparr>window_size = 60, history_buffer = [still_frame]\<rparr>,
             motion_history = [],
             frame_actions =
               [frame_record 6 ''standing''
                  (still_features(''avg_velocity'' \<mapsto> 0, ''tail_angle_variance'' \<mapsto> 0,
                     ''centroid_vertical_velocity'' \<mapsto> 0,
                     ''front_paws_vertical_velocity'' \<mapsto> 0))]\<rparr>"
proof -
  from run_stream_smoothed obtain summary where
    ret: "analyze_behavior run_stream = Inr summary"
    and labels: "map frame_data.action (frame_by_frame_data summary)
          = [''standing'', ''walking'', ''walking'', ''walking'', ''walking'', ''running'']"
    by (elim exE conjE)
  have raw: "classify_frames 0 run_stream (FeatureExtractor_init 60)
       = Inr [(0, ''standing''), (1, ''running''), (2, ''running''), (3, ''running''),
              (4, ''running''), (5, ''running'')]"
    by (rule run_stream_raw)
  from running_debounce [THEN conjunct1, rule_format, OF ret] raw
  have frames: "map frame (frame_by_frame_data summary)
      = map fst [(0, ''standing''), (1, ''running''), (2, ''running''), (3, ''running''),
                 (4, ''running''), (5::int, ''running'')]"
    by auto
  have upd: "update (extractor \<lparr>extractor = FeatureExtractor_init 60,
                 motion_history = [''running'', ''running''], frame_actions = []\<rparr>) still_detection
      = Inr ((Some (still_features(''avg_velocity'' \<mapsto> 0, ''tail_angle_variance'' \<mapsto> 0,
                  ''centroid_vertical_velocity'' \<mapsto> 0,
                  ''front_paws_vertical_velocity'' \<mapsto> 0)),
           Some origin_keypoints),
          \<lparr>window_size = 60, history_buffer = [still_frame]\<rparr>)
     \<and> recognize_action (Some (still_features(''avg_velocity'' \<mapsto> 0,
                  ''tail_angle_variance'' \<mapsto> 0, ''centroid_vertical_velocity'' \<mapsto> 0,
                  ''front_paws_vertical_velocity'' \<mapsto> 0))) (Some origin_keypoints)
         = Inr ''standing''
     \<and> ''standing'' \<noteq> ''running''"
    by (simp add: update_run_1 recognize_still)
  note body = running_debounce [THEN conjunct2, rule_format, OF upd, of 6]
  have "analyze_behavior run_stream = Inr summary
      \<and> classify_frames 0 run_stream (FeatureExtractor_init 60)
          = Inr [(0, ''standing''), (1, ''running''), (2, ''running''), (3, ''running''),
                 (4, ''running''), (5, ''running'')]
      \<and> map snd [(0::int, ''standing''), (1, ''running''), (2, ''running''), (3, ''running''),
                 (4, ''running''), (5, ''running'')]
          = [''standing'', ''running'', ''running'', ''running'', ''running'', ''running'']
      \<and> map frame_data.action (frame_by_frame_data summary)
          = [''standing'', ''walking'', ''walking'', ''walking'', ''walking'', ''running'']
      \<and> map frame (frame_by_frame_data summary)
          = map fst [(0, ''standing''), (1, ''running''), (2, ''running''), (3, ''running''),
                 (4, ''running''), (5::int, ''running'')]"
    using ret raw labels frames by simp
  then have part1: "\<exists>summary cf. analyze_behavior run_stream = Inr summary
      \<and> classify_frames 0 run_stream (FeatureExtractor_init 60) = Inr cf
      \<and> map snd cf = [''standing'', ''running'', ''running'', ''running'', ''running'', ''running'']
      \<and> map frame_data.action (frame_by_frame_data summary)
          = [''standing'', ''walking'', ''walking'', ''walking'', ''walking'', ''running'']
      \<and> map frame (frame_by_frame_data summary) = map fst cf"
    by (intro exI)
  from part1 body show ?thesis by simp
qed

section \<open>Frames without detection in the loop\<close>

lemma loop_body_no_detection:
  "keypoints_xy result = [] \<Longrightarrow> loop_body idx result s = Inr s"
  by (simp add: loop_body_def update_empty)

lemma loop_body_same_labels:
  assumes "same_labels s s'"
  shows "rel_sum (=) same_labels (loop_body idx r s) (loop_body idx' r s')"
  using assms
  by (auto simp: loop_body_def same_labels_def frame_record_def split: sum.splits option.splits prod.splits)

lemma analyze_loop_same_labels:
  "same_labels s s' \<Longrightarrow> rel_sum (=) same_labels (analyze_loop idx rs s) (analyze_loop idx' rs s')"
proof (induction rs arbitrary: idx idx' s s')
  case Nil
  then show ?case by simp
next
  case (Cons r rs)
  from loop_body_same_labels [OF Cons.prems, of idx r idx']
  show ?case
    by (cases "loop_body idx r s"; cases "loop_body idx' r s'") (auto intro: Cons.IH)
qed

lemma rel_sum_same_labels:
  "rel_sum (=) same_labels x y \<Longrightarrow>
     map_sum id (\<lambda>s. (motion_history s, map frame_data.action (frame_actions s))) x
       = map_sum id (\<lambda>s. (motion_history s, map frame_data.action (frame_actions s))) y"
  by (cases x; cases y) (auto simp: same_labels_def)

text \<open>
  C10. A frame with no detection leaves the loop state, \<open>motion_history\<close> included, as it
  was: the buffer and the labels stored for a stream are those of the stream with that
  frame removed, so runs of raw "running" on either side of it add up.
\<close>

theorem no_detection_keeps_history:
  assumes "keypoints_xy result = []"
  shows "loop_body idx result s = Inr s
       \<and> map_sum id (\<lambda>s. (motion_history s, map frame_data.action (frame_actions s)))
            (analyze_loop idx (result # results) s)
           = map_sum id (\<lambda>s. (motion_history s, map frame_data.action (frame_actions s)))
               (analyze_loop idx results s)"
proof -
  have "same_labels s s" by (simp add: same_labels_def)
  from rel_sum_same_labels [OF analyze_loop_same_labels [OF this, of "idx + 1" results idx]]
  show ?thesis by (simp add: loop_body_no_detection [OF assms])
qed

theorem no_detection_keeps_history_witness:
  "keypoints_xy no_detection = []
   \<and> loop_body 7 no_detection mid_run_state = Inr mid_run_state
   \<and> motion_history mid_run_state = [''running'', ''running'', ''running'']"
proof -
  have h: "keypoints_xy no_detection = []" by (simp add: no_detection_def)
  show ?thesis
    using h no_detection_keeps_history [OF h, of 7 mid_run_state "[]"]
    by (simp add: mid_run_state_def)
qed

section \<open>Segmentation\<close>

lemma close_segments_acc:
  "close_segments (segment_loop i rest (segs, cur, start)) n
     = segs @ close_segments (segment_loop i rest ([], cur, start)) n"
proof (induction rest arbitrary: i segs cur start)
  case Nil
  then show ?case by (simp add: close_segments_def split: option.splits)
next
  case (Cons fd rest)
  show ?case
  proof (cases cur)
    case None
    then show ?thesis using Cons.IH [of "i + 1" segs "Some (frame_data.action fd)" i] by simp
  next
    case (Some c)
    show ?thesis
    proof (cases "frame_data.action fd = c")
      case True
      with Some show ?thesis using Cons.IH [of "i + 1" segs "Some c" start] by simp
    next
      case False
      with Some show ?thesis
        using Cons.IH [of "i + 1" "segs @ [make_segment c start i]" "Some (frame_data.action fd)" i]
              Cons.IH [of "i + 1" "[make_segment c start i]" "Some (frame_data.action fd)" i]
        by simp
    qed
  qed
qed

lemma open_run_Nil: "open_run c start i [] = [make_segment c start i]"
  by (simp add: open_run_def close_segments_def)

lemma open_run_Cons:
  "open_run c start i (fd # rest) =
     (if frame_data.action fd \<noteq> c
      then make_segment c start i # open_run (frame_data.action fd) i (i + 1) rest
      else open_run c start (i + 1) rest)"
proof -
  have n: "i + int (length (fd # rest)) = (i + 1) + int (length rest)" by simp
  show ?thesis
    unfolding open_run_def n
    using close_segments_acc [of "i + 1" rest "[make_segment c start i]" "Some (frame_data.action fd)" i
            "i + 1 + int (length rest)"]
    by simp
qed

lemma seg_ok_make: "start < i \<Longrightarrow> seg_ok (make_segment c start i)"
  by (simp add: seg_ok_def make_segment_def)

lemma open_run_props:
  assumes "start < i"
  shows "open_run c start i rest \<noteq> []
       \<and> start_frame (hd (open_run c start i rest)) = start
       \<and> segment.action (hd (open_run c start i rest)) = c
       \<and> end_frame (last (open_run c start i rest)) = i + int (length rest) - 1
       \<and> successively (\<lambda>a b. start_frame b = end_frame a + 1 \<and> segment.action b \<noteq> segment.action a)
            (open_run c start i rest)
       \<and> (\<forall>seg\<in>set (open_run c start i rest). seg_ok seg)
       \<and> sum_list (map duration_frames (open_run c start i rest)) = i - start + int (length rest)
       \<and> concat (map (\<lambda>seg. replicate (nat (duration_frames seg)) (segment.action seg))
                   (open_run c start i rest))
           = replicate (nat (i - start)) c @ map frame_data.action rest"
  using assms
proof (induction rest arbitrary: c start i)
  case Nil
  then show ?case by (simp add: open_run_Nil seg_ok_make) (simp add: make_segment_def)
next
  case (Cons fd rest)
  show ?case
  proof (cases "frame_data.action fd = c")
    case True
    have lt: "start < i + 1" using Cons.prems by simp
    have rep: "replicate (nat (i + 1 - start)) c = replicate (nat (i - start)) c @ [c]"
      using Cons.prems by (simp add: nat_add_distrib replicate_append_same flip: replicate_Suc)
    from Cons.IH [OF lt, of c] True rep show ?thesis
      by (simp add: open_run_Cons)
  next
    case False
    have lt: "i < i + 1" by simp
    note IH = Cons.IH [OF lt, of "frame_data.action fd"]
    let ?ts = "open_run (frame_data.action fd) i (i + 1) rest"
    from IH obtain t ts where ts: "?ts = t # ts" by (cases ?ts) auto
    with IH have t: "start_frame t = i" "segment.action t = frame_data.action fd" by simp_all
    show ?thesis
      using IH False Cons.prems ts t
      by (simp add: open_run_Cons seg_ok_make) (simp add: make_segment_def)
  qed
qed

lemma action_segments_of_Cons:
  "action_segments_of (fd # rest) = open_run (frame_data.action fd) 0 1 rest"
  by (simp add: action_segments_of_def open_run_def)

text \<open>
  C5. For a non-empty list of stored records, the segment list is the run-length encoding
  of their labels: the frame counts sum to the number of records; the first segment
  starts at 0, each next one starts right after the one before it ends and has another
  label, the last one ends at the last record; each segment's count is its span and its
  duration is the count over 30; expanding every segment into as many copies of its label
  gives the label sequence back.
\<close>

theorem segments_run_length_encoding:
  assumes "fa \<noteq> []"
  shows "(let segs = action_segments_of fa in
            sum_list (map duration_frames segs) = int (length fa)
          \<and> segs \<noteq> [] \<and> start_frame (hd segs) = 0
          \<and> end_frame (last segs) = int (length fa) - 1
          \<and> (\<forall>k. Suc k < length segs \<longrightarrow>
                start_frame (segs ! Suc k) = end_frame (segs ! k) + 1
                \<and> segment.action (segs ! Suc k) \<noteq> segment.action (segs ! k))
          \<and> (\<forall>seg\<in>set segs.
                1 \<le> duration_frames seg
                \<and> duration_frames seg = end_frame seg - start_frame seg + 1
                \<and> segment.duration_seconds seg = real_of_int (duration_frames seg) / 30)
          \<and> concat (map (\<lambda>seg. replicate (nat (duration_frames seg)) (segment.action seg)) segs)
              = map frame_data.action fa)"
proof -
  from assms obtain fd rest where fa: "fa = fd # rest" by (cases fa) auto
  have lt: "(0::int) < 1" by simp
  note P = open_run_props [OF lt, of "frame_data.action fd" rest]
  from P have chain: "\<forall>k. Suc k < length (open_run (frame_data.action fd) 0 1 rest) \<longrightarrow>
      start_frame (open_run (frame_data.action fd) 0 1 rest ! Suc k)
        = end_frame (open_run (frame_data.action fd) 0 1 rest ! k) + 1
      \<and> segment.action (open_run (frame_data.action fd) 0 1 rest ! Suc k)
        \<noteq> segment.action (open_run (frame_data.action fd) 0 1 rest ! k)"
    by (simp add: successively_conv_nth)
  from P have each: "\<forall>seg\<in>set (open_run (frame_data.action fd) 0 1 rest).
      1 \<le> duration_frames seg
      \<and> duration_frames seg = end_frame seg - start_frame seg + 1
      \<and> segment.duration_seconds seg = real_of_int (duration_frames seg) / 30"
    unfolding seg_ok_def by blast
  from P have rest: "sum_list (map duration_frames (open_run (frame_data.action fd) 0 1 rest))
        = int (length (fd # rest))"
    "open_run (frame_data.action fd) 0 1 rest \<noteq> []"
    "start_frame (hd (open_run (frame_data.action fd) 0 1 rest)) = 0"
    "end_frame (last (open_run (frame_data.action fd) 0 1 rest)) = int (length (fd # rest)) - 1"
    "concat (map (\<lambda>seg. replicate (nat (duration_frames seg)) (segment.action seg))
        (open_run (frame_data.action fd) 0 1 rest)) = map frame_data.action (fd # rest)"
    by simp_all
  show ?thesis
    unfolding Let_def fa action_segments_of_Cons
    using chain each rest by blast
qed

theorem segments_run_length_encoding_witness:
  "example_records \<noteq> []
   \<and> action_segments_of example_records =
       [\<lparr>action = ''walking'', start_frame = 0, end_frame = 1, duration_frames = 2,
         duration_seconds = 2 / 30\<rparr>,
        \<lparr>action = ''sitting'', start_frame = 2, end_frame = 2, duration_frames = 1,
         duration_seconds = 1 / 30\<rparr>,
        \<lparr>action = ''walking'', start_frame = 3, end_frame = 3, duration_frames = 1,
         duration_seconds = 1 / 30\<rparr>]"
proof -
  have ne: "example_records \<noteq> []" by (simp add: example_records_def)
  show ?thesis
    using ne segments_run_length_encoding [OF ne]
    by (simp add: example_records_def frame_record_def action_segments_of_def
          close_segments_def make_segment_def)
qed

section \<open>Streams without usable frames, and streams with gaps\<close>

lemma analyze_loop_no_detections:
  "list_all (\<lambda>r. keypoints_xy r = []) results \<Longrightarrow> analyze_loop idx results s = Inr s"
  by (induction results arbitrary: idx) (simp_all add: loop_body_no_detection)

lemma summary_of_Nil:
  "video_info.total_frames (video_info (summary_of [])) = 0"
  "video_info.duration_seconds (video_info (summary_of [])) = 0"
  "dom (action_statistics (summary_of [])) = {}"
  "action_timeline (summary_of []) = []"
  "frame_by_frame_data (summary_of []) = []"
  by (simp_all add: summary_of_def action_stats_of_def action_segments_of_def close_segments_def dom_def)

text \<open>
  C1, as stated, fails: on the empty list \<open>analyze_behavior\<close> raises nothing and returns
  a summary whose record list, timeline and statistics are all empty.
\<close>

theorem empty_stream_returns_summary:
  "analyze_behavior [] = Inr (summary_of [])
   \<and> frame_by_frame_data (summary_of []) = []
   \<and> action_timeline (summary_of []) = []
   \<and> dom (action_statistics (summary_of [])) = {}"
  by (simp add: analyze_behavior_def summary_of_Nil)

text \<open>
  C1, amended. Given a stream with no usable frame (the empty list, or frames that all
  lack a detection), \<open>analyze_behavior\<close> returns the summary of no records: 0 frames,
  duration 0, no statistics entry (so no percentage at all), no segment, no record.
\<close>

theorem no_usable_frames_summary:
  assumes "list_all (\<lambda>r. keypoints_xy r = []) results"
  shows "analyze_behavior results = Inr (summary_of [])
       \<and> video_info.total_frames (video_info (summary_of [])) = 0
       \<and> video_info.duration_seconds (video_info (summary_of [])) = 0
       \<and> dom (action_statistics (summary_of [])) = {}
       \<and> action_timeline (summary_of []) = []
       \<and> frame_by_frame_data (summary_of []) = []"
  using analyze_loop_no_detections [OF assms]
  by (simp add: analyze_behavior_def summary_of_Nil)

theorem no_usable_frames_summary_witness:
  "list_all (\<lambda>r. keypoints_xy r = []) [no_detection, no_detection]
   \<and> analyze_behavior [no_detection, no_detection] = Inr (summary_of [])"
proof -
  have h: "list_all (\<lambda>r. keypoints_xy r = []) [no_detection, no_detection]"
    by (simp add: no_detection_def)
  show ?thesis using h no_usable_frames_summary [OF h] by simp
qed

text \<open>
  C3. For the stream of a frame without detection followed by a detection, the stored
  record carries the frame's index 1, while the one segment runs from 0 to 0: segment
  bounds are positions in the record list, not frame indices.
\<close>

theorem segments_lose_frame_index:
  "(case analyze_behavior [no_detection, still_detection] of
      Inr summary \<Rightarrow>
        map frame (frame_by_frame_data summary) = [1]
        \<and> map (\<lambda>seg. (start_frame seg, end_frame seg)) (action_timeline summary) = [(0, 0)]
    | Inl e \<Rightarrow> False)"
proof -
  have nd: "keypoints_xy no_detection = []" by (simp add: no_detection_def)
  show ?thesis
    by (simp add: analyze_behavior_def loop_body_no_detection [OF nd] loop_body_still_first
          summary_of_def action_segments_of_def close_segments_def make_segment_def)
qed

section \<open>The two tail-wagging tests\<close>

text \<open>
  C9. For a feature set classified with motion idle and a known pose, whose tail-angle
  deviation is above 9.0 and whose oscillation count is above 10 but not above 25, the
  per-frame record has \<open>is_tail_wagging\<close> true while the label has no "_wagging" suffix.
\<close>

theorem wagging_thresholds_disagree:
  assumes "has_keys f required_keys" and "10 \<le> length k"
    and "\<not> dict_get f ''centroid_vertical_velocity'' 0 < JUMP_VELOCITY_THRESHOLD"
    and "\<not> (dict_get f ''front_paws_vertical_velocity'' 0 < REAR_FRONT_VELOCITY_THRESHOLD
            \<or> paw_height_diff k > 0.3)"
    and "motion_state f = ''idle''" and "primary_pose f k \<noteq> ''unknown''"
    and "dict_get f ''tail_angle_variance'' 0 > 9.0"
    and "10 < dict_get f ''tail_oscillation_count'' 0"
    and "dict_get f ''tail_oscillation_count'' 0 \<le> 25"
  shows "is_tail_wagging (frame_record idx act f)
       \<and> (\<exists>label. recognize_action (Some f) (Some k) = Inr label
             \<and> \<not> ends_with label ''_wagging'')"
proof -
  have "\<not> is_tail_wagging_label f"
    using assms(9) by (simp add: is_tail_wagging_label_def TAIL_OSCILLATION_THRESHOLD_def)
  with recognize_action_idle_pose [OF assms(1-6)] pose_no_suffix [of f k] assms(7,8)
  show ?thesis by (simp add: frame_record_def)
qed

theorem wagging_thresholds_disagree_witness:
  "is_tail_wagging (frame_record 0 ''sitting'' (sitting_features 12 20))
   \<and> recognize_action (Some (sitting_features 12 20)) (Some origin_keypoints) = Inr ''sitting''"
proof -
  have known: "primary_pose (sitting_features 12 20) origin_keypoints \<noteq> ''unknown''"
    by (simp add: sitting_features_reach_pose(6))
  have tv: "dict_get (sitting_features 12 20) ''tail_angle_variance'' 0 > 9.0"
    and lo: "10 < dict_get (sitting_features 12 20) ''tail_oscillation_count'' 0"
    and hi: "dict_get (sitting_features 12 20) ''tail_oscillation_count'' 0 \<le> 25"
    by (simp_all add: dict_get_def sitting_features_def)
  have nw: "\<not> is_tail_wagging_label (sitting_features 12 20)"
    by (simp add: is_tail_wagging_label_def dict_get_def sitting_features_def
          TAIL_OSCILLATION_THRESHOLD_def)
  have label: "recognize_action (Some (sitting_features 12 20)) (Some origin_keypoints)
                 = Inr ''sitting''"
    using recognize_action_idle_pose [OF sitting_features_reach_pose(1-5) known] nw
    by (simp add: sitting_features_reach_pose(6))
  show ?thesis
    using wagging_thresholds_disagree [OF sitting_features_reach_pose(1-5) known tv lo hi,
            where idx = 0 and act = "''sitting''"] label
    by simp
qed

end
